theory Spec2Isabelle
  imports Main "HOL-Library.Multiset"
begin

section \<open>The control server of the DNS daemon: handlers as functions\<close>

text \<open>
  The handlers registered by \<open>registerControlServerHandler\<close> are embedded one by one.
  Each handler is a function of the response writer it is given, of the part of the
  program state it reads, and of the answers of the collaborators it calls (the daemon,
  the remote API, the metrics registry, the clock); it returns the response writer and
  the state as it leaves them.
\<close>

subsection \<open>The response writer of net/http\<close>

text \<open>
  \<open>WriteHeader\<close> fixes the status code once; a later call is ignored. \<open>Write\<close> sends the
  header with status 200 when none was sent before. \<open>http.Error\<close> sends the header with
  the given code and writes the message followed by a newline. A handler that returns
  without writing anything answers 200.
\<close>

datatype 'j chunk = Text string | Json 'j

record 'j ResponseWriter =
  header_sent :: "nat option"
  written :: "'j chunk list"

definition new_writer :: "'j ResponseWriter" where
  "new_writer = \<lparr>header_sent = None, written = []\<rparr>"

definition WriteHeader :: "nat \<Rightarrow> 'j ResponseWriter \<Rightarrow> 'j ResponseWriter" where
  "WriteHeader code w =
     (case header_sent w of None \<Rightarrow> w\<lparr>header_sent := Some code\<rparr> | Some c \<Rightarrow> w)"

definition Write :: "'j chunk \<Rightarrow> 'j ResponseWriter \<Rightarrow> 'j ResponseWriter" where
  "Write c w = (let w1 = WriteHeader 200 w in w1\<lparr>written := written w1 @ [c]\<rparr>)"

definition http_Error :: "string \<Rightarrow> nat \<Rightarrow> 'j ResponseWriter \<Rightarrow> 'j ResponseWriter" where
  "http_Error msg code w = Write (Text (msg @ [CHR 0x0A])) (WriteHeader code w)"

definition status :: "'j ResponseWriter \<Rightarrow> nat" where
  "status w = (case header_sent w of None \<Rightarrow> 200 | Some c \<Rightarrow> c)"

definition StatusOK :: nat where "StatusOK = 200"
definition StatusCreated :: nat where "StatusCreated = 201"
definition StatusMovedPermanently :: nat where "StatusMovedPermanently = 301"
definition StatusBadRequest :: nat where "StatusBadRequest = 400"
definition StatusForbidden :: nat where "StatusForbidden = 403"
definition StatusRequestTimeout :: nat where "StatusRequestTimeout = 408"
definition StatusPreconditionFailed :: nat where "StatusPreconditionFailed = 412"
definition StatusInternalServerError :: nat where "StatusInternalServerError = 500"
definition StatusServiceUnavailable :: nat where "StatusServiceUnavailable = 503"

subsection \<open>The deactivation handler\<close>

text \<open>
  The PIN type, the sentinel \<open>defaultDeactivationPin\<close> and the type
  \<open>deactivationRequest\<close> are declared outside the handler's file: the PIN type is a type
  parameter, the sentinel a parameter of the handler. \<open>FetchResolverConfig\<close> answers
  with a resolver configuration or with none (\<open>rc == nil\<close>); the configuration carries
  a PIN or none. Decoding the body gives a request or an error.
\<close>

record 'pin ResolverConfig =
  DeactivationPin :: "'pin option"

record 'pin deactivationRequest =
  Pin :: 'pin

text \<open>
  Modelled from the spec: the helper \<open>deactivationPinNotSet\<close> is not in the handler's
  file; the spec says the handler allows the request "if the cached PIN equals the
  unset sentinel".
\<close>

definition deactivationPinNotSet :: "'pin \<Rightarrow> 'pin \<Rightarrow> bool" where
  "deactivationPinNotSet defaultDeactivationPin cdDeactivationPin =
     (cdDeactivationPin = defaultDeactivationPin)"

text \<open>The re-fetch of the PIN: what is stored in \<open>cdDeactivationPin\<close>.\<close>

definition refetchPin :: "'pin \<Rightarrow> 'pin ResolverConfig option \<Rightarrow> 'pin \<Rightarrow> 'pin" where
  "refetchPin defaultDeactivationPin fetched cdDeactivationPin =
     (case fetched of
        Some rc \<Rightarrow>
          (case DeactivationPin rc of
             Some pin \<Rightarrow> pin
           | None \<Rightarrow> defaultDeactivationPin)
      | None \<Rightarrow> cdDeactivationPin)"

text \<open>
  The handler returns the response writer and the cached PIN. With an empty \<open>cdUID\<close>
  nothing is fetched and the cache is left as it is.
\<close>

definition deactivationHandler ::
  "string \<Rightarrow> 'pin \<Rightarrow> 'pin ResolverConfig option \<Rightarrow> string + 'pin deactivationRequest \<Rightarrow>
   'pin \<Rightarrow> 'j ResponseWriter \<Rightarrow> 'j ResponseWriter \<times> 'pin" where
  "deactivationHandler cdUID defaultDeactivationPin fetched decoded cdDeactivationPin w =
     (if cdUID = [] then (WriteHeader StatusOK w, cdDeactivationPin)
      else
        let pin = refetchPin defaultDeactivationPin fetched cdDeactivationPin in
        if deactivationPinNotSet defaultDeactivationPin pin then (WriteHeader StatusOK w, pin)
        else
          (case decoded of
             Inl err \<Rightarrow> (WriteHeader StatusPreconditionFailed w, pin)
           | Inr req \<Rightarrow>
               (let code = (if Pin req = pin then StatusOK
                            else if Pin req = defaultDeactivationPin then StatusBadRequest
                            else StatusForbidden)
                in (WriteHeader code w, pin))))"

subsection \<open>The client listing handler\<close>

text \<open>
  A client record as the handler uses it. The address type is a parameter: the handler
  only compares addresses with \<open>Less\<close>, a strict linear order, and prints them.
  Modelled from the spec: the type of the elements of \<open>ListClients()\<close> is declared
  outside the handler's file; the spec has the records "enriched in place", so the
  writes of the loop are writes to the records that are encoded afterwards.
\<close>

record 'ip Client =
  IP :: 'ip
  Mac :: string
  Hostname :: string
  IncludeQueryCount :: bool
  QueryCount :: int

text \<open>
  \<open>sort.Slice\<close> belongs to the Go library: it reorders the slice by the comparison it
  is given and promises no stability. It is modelled by insertion with that same
  comparison; nothing below depends on the order of records with equal keys.
\<close>

fun insert_by :: "('a \<Rightarrow> 'a \<Rightarrow> bool) \<Rightarrow> 'a \<Rightarrow> 'a list \<Rightarrow> 'a list" where
  "insert_by lt x [] = [x]"
| "insert_by lt x (y # ys) =
     (if lt x y then x # y # ys else y # insert_by lt x ys)"

definition sort_Slice :: "'a list \<Rightarrow> ('a \<Rightarrow> 'a \<Rightarrow> bool) \<Rightarrow> 'a list" where
  "sort_Slice xs lt = foldr (insert_by lt) xs []"

text \<open>
  The metrics registry: the printed form of an address, the lookup of the counter by
  its three labels (an error or a metric), and \<open>Write\<close> on the metric, which gives an
  error or the value of the counter converted to a 64-bit integer.
\<close>

record ('ip, 'm) MetricVec =
  ip_String :: "'ip \<Rightarrow> string"
  GetMetricWithLabelValues :: "string \<Rightarrow> string \<Rightarrow> string \<Rightarrow> string + 'm"
  metric_Write :: "'m \<Rightarrow> string + int"

text \<open>The body of the loop over the clients.\<close>

definition enrichClient :: "('ip, 'm) MetricVec \<Rightarrow> 'ip Client \<Rightarrow> 'ip Client" where
  "enrichClient mv client0 =
     (let client = client0\<lparr>IncludeQueryCount := True\<rparr> in
      case GetMetricWithLabelValues mv (ip_String mv (IP client)) (Mac client) (Hostname client) of
        Inl err \<Rightarrow> client
      | Inr m \<Rightarrow>
          (case metric_Write mv m of
             Inl err \<Rightarrow> client
           | Inr v \<Rightarrow> client\<lparr>QueryCount := v\<rparr>))"

text \<open>The slice handed to the encoder.\<close>

definition listedClients ::
  "'ip::linorder Client list \<Rightarrow> bool \<Rightarrow> ('ip, 'm) MetricVec \<Rightarrow> 'ip Client list" where
  "listedClients table metricsQueryStats mv =
     (let clients = sort_Slice table (\<lambda>a b. IP a < IP b) in
      if metricsQueryStats then map (enrichClient mv) clients else clients)"

text \<open>
  \<open>encode_err\<close> is the error of the JSON encoder, if any; on an error nothing has been
  written and the handler answers 500 with the error's text.
\<close>

definition listClientsHandler ::
  "'ip::linorder Client list \<Rightarrow> bool \<Rightarrow> ('ip, 'm) MetricVec \<Rightarrow> string option \<Rightarrow>
   'ip Client list ResponseWriter \<Rightarrow> 'ip Client list ResponseWriter" where
  "listClientsHandler table metricsQueryStats mv encode_err w =
     (let clients = listedClients table metricsQueryStats mv in
      case encode_err of
        Some err \<Rightarrow> http_Error err StatusInternalServerError w
      | None \<Rightarrow> Write (Json clients) w)"

subsection \<open>Waiting for a signal\<close>

text \<open>
  A channel is described by the time, counted in milliseconds from the moment the
  handler starts to wait, at which it becomes ready, or by \<open>Never\<close>. A \<open>select\<close> between
  a channel and \<open>time.After d\<close> takes the case that is ready first; when both are ready
  at the same moment the runtime picks one, and the pick is the parameter \<open>timer_wins\<close>.
  The result is the case taken (\<open>True\<close> for the channel) and the time waited. A bare
  receive returns when the channel is ready and never otherwise.
\<close>

datatype signal = Never | At nat

fun select_After :: "signal \<Rightarrow> nat \<Rightarrow> bool \<Rightarrow> bool \<times> nat" where
  "select_After Never d timer_wins = (False, d)"
| "select_After (At t) d timer_wins =
     (if t < d then (True, t)
      else if d < t then (False, d)
      else (\<not> timer_wins, d))"

fun receive :: "signal \<Rightarrow> nat option" where
  "receive Never = None"
| "receive (At t) = Some t"

subsection \<open>The readiness handler\<close>

definition startedHandler ::
  "signal \<Rightarrow> bool \<Rightarrow> 'j ResponseWriter \<Rightarrow> 'j ResponseWriter \<times> nat" where
  "startedHandler onStartedDone timer_wins w =
     (case select_After onStartedDone 10000 timer_wins of
        (True, t) \<Rightarrow> (WriteHeader StatusOK w, t)
      | (False, t) \<Rightarrow> (WriteHeader StatusRequestTimeout w, t))"

subsection \<open>The reload handler\<close>

text \<open>
  A listener has an address and a port among its fields; the snapshot keeps these two
  only. The listener map is given by its entries in the order the iteration visits
  them (a Go map has each key once; the order is arbitrary). The service configuration
  is opaque, and \<open>reflect.DeepEqual\<close> on it is a parameter.
\<close>

record ListenerConfig =
  ListenerIP :: string
  Port :: int

record ('l, 's) Config =
  Listener :: "(string \<times> 'l ListenerConfig_scheme) list"
  Service :: 's

definition snapshotListeners ::
  "(string \<times> 'l ListenerConfig_scheme) list \<Rightarrow> (string \<rightharpoonup> ListenerConfig)" where
  "snapshotListeners kvs =
     fold (\<lambda>(k, v) listeners. listeners(k \<mapsto> \<lparr>ListenerIP = ListenerIP v, Port = Port v\<rparr>))
       kvs Map.empty"

text \<open>
  The loop over the live listeners: \<open>True\<close> when it answers 201 and returns, \<open>False\<close>
  when it runs to its end.
\<close>

fun listenerChanged ::
  "(string \<rightharpoonup> ListenerConfig) \<Rightarrow> (string \<times> 'l ListenerConfig_scheme) list \<Rightarrow> bool" where
  "listenerChanged listeners [] = False"
| "listenerChanged listeners ((k, v) # rest) =
     (case listeners k of
        None \<Rightarrow> True
      | Some l \<Rightarrow>
          (if ListenerIP l \<noteq> ListenerIP v \<or> Port l \<noteq> Port v then True
           else listenerChanged listeners rest))"

text \<open>
  What the handler calls, in order. The daemon's answers: the error of
  \<open>sendReloadSignal\<close> if any, the channel \<open>reloadDoneCh\<close>, and the configuration found
  when the lock is taken again after the wait.
\<close>

datatype reload_call = SendReloadSignal | WaitReloadDone | Verify

record ('l, 's) reload_daemon =
  sendReloadSignal :: "string option"
  reloadDoneCh :: signal
  timer_wins :: bool
  cfg_reloaded :: "('l, 's) Config"

record 'j reload_result =
  response :: "'j ResponseWriter"
  calls :: "reload_call list"
  waited :: nat

definition reloadHandler ::
  "('s \<Rightarrow> 's \<Rightarrow> bool) \<Rightarrow> ('l, 's) Config \<Rightarrow> ('l, 's) reload_daemon \<Rightarrow>
   'j ResponseWriter \<Rightarrow> 'j reload_result" where
  "reloadHandler DeepEqual cfg d w =
     (let listeners = snapshotListeners (Listener cfg);
          oldSvc = Service cfg
      in
      case sendReloadSignal d of
        Some err \<Rightarrow>
          \<lparr>response = http_Error err StatusInternalServerError w,
           calls = [SendReloadSignal], waited = 0\<rparr>
      | None \<Rightarrow>
          (case select_After (reloadDoneCh d) 5000 (timer_wins d) of
             (False, t) \<Rightarrow>
               \<lparr>response = http_Error ''timeout waiting for ctrld reload''
                             StatusInternalServerError w,
                calls = [SendReloadSignal, WaitReloadDone], waited = t\<rparr>
           | (True, t) \<Rightarrow>
               \<lparr>response =
                  (if listenerChanged listeners (Listener (cfg_reloaded d))
                   then WriteHeader StatusCreated w
                   else if \<not> DeepEqual oldSvc (Service (cfg_reloaded d))
                   then WriteHeader StatusCreated w
                   else WriteHeader StatusOK w),
                calls = [SendReloadSignal, WaitReloadDone, Verify], waited = t\<rparr>))"

subsection \<open>The identity and interface handlers\<close>

definition cdHandler :: "string \<Rightarrow> 'j ResponseWriter \<Rightarrow> 'j ResponseWriter" where
  "cdHandler cdUID w =
     (if cdUID \<noteq> [] then Write (Text cdUID) (WriteHeader StatusOK w)
      else WriteHeader StatusBadRequest w)"

text \<open>
  The interface handler receives from \<open>csSetDnsDone\<close> with no timer beside it: the
  result is \<open>None\<close> when the handler never returns.
\<close>

definition ifaceHandler ::
  "bool \<Rightarrow> signal \<Rightarrow> bool \<Rightarrow> string \<Rightarrow> 'j ResponseWriter \<Rightarrow>
   ('j ResponseWriter \<times> nat) option" where
  "ifaceHandler Interactive csSetDnsDone csSetDnsOk iface w =
     (if \<not> Interactive then
        (case receive csSetDnsDone of
           None \<Rightarrow> None
         | Some t \<Rightarrow>
             (if csSetDnsOk then Some (Write (Text iface) w, t)
              else Some (WriteHeader StatusBadRequest w, t)))
      else Some (WriteHeader StatusBadRequest w, 0))"

subsection \<open>The log handlers\<close>

text \<open>
  \<open>logContent\<close> gives an error or the bytes of the log. Both handlers answer 400 with
  the error's text on an error and 301 on an empty log.
\<close>

record logViewResponse =
  Data :: string

definition viewLogsHandler ::
  "string + string \<Rightarrow> string option \<Rightarrow> logViewResponse ResponseWriter \<Rightarrow>
   logViewResponse ResponseWriter" where
  "viewLogsHandler logContent encode_err w =
     (case logContent of
        Inl err \<Rightarrow> http_Error err StatusBadRequest w
      | Inr data \<Rightarrow>
          (if length data = 0 then WriteHeader StatusMovedPermanently w
           else
             (case encode_err of
                Some err \<Rightarrow> http_Error err StatusInternalServerError w
              | None \<Rightarrow> Write (Json \<lparr>Data = data\<rparr>) w)))"

text \<open>
  Times are counted in nanoseconds, as a \<open>Duration\<close> is. \<open>Time.Sub\<close> saturates at the
  ends of the 64-bit range of a \<open>Duration\<close>.
\<close>

definition minDuration :: int where "minDuration = - (2 ^ 63)"
definition maxDuration :: int where "maxDuration = 2 ^ 63 - 1"

definition time_Sub :: "int \<Rightarrow> int \<Rightarrow> int" where
  "time_Sub t u = (if t - u > maxDuration then maxDuration
                   else if t - u < minDuration then minDuration
                   else t - u)"

definition time_Since :: "int \<Rightarrow> int \<Rightarrow> int" where
  "time_Since now t = time_Sub now t"

record LogsRequest =
  UID :: string
  LogFile :: string

record logSentResponse =
  Size :: int
  Error :: string

text \<open>
  What the log-ship handler calls, in order, and the answers it gets: the clock when
  the handler tests the throttle, the log, the error of \<open>SendLogs\<close> if any, the error
  of the encoder if any, and the clock when the handler stores the time of the attempt.
  The interval \<open>logSentInterval\<close>, the device identifier and the base64 encoding are
  parameters.
\<close>

datatype logs_call = LogContent | SendLogs LogsRequest

record logs_daemon =
  now_on_entry :: int
  logContent :: "string + string"
  SendLogs_err :: "LogsRequest \<Rightarrow> string option"
  Encode_err :: "string option"
  now_on_exit :: int

record sendLogs_result =
  sent_response :: "logSentResponse ResponseWriter"
  internalLogSent :: int
  logs_calls :: "logs_call list"

definition sendLogsHandler ::
  "int \<Rightarrow> string \<Rightarrow> (string \<Rightarrow> string) \<Rightarrow> logs_daemon \<Rightarrow> int \<Rightarrow>
   logSentResponse ResponseWriter \<Rightarrow> sendLogs_result" where
  "sendLogsHandler logSentInterval cdUID EncodeToString d p_internalLogSent w =
     (if time_Since (now_on_entry d) p_internalLogSent < logSentInterval then
        \<lparr>sent_response = WriteHeader StatusServiceUnavailable w,
         internalLogSent = p_internalLogSent, logs_calls = []\<rparr>
      else
        (case logContent d of
           Inl err \<Rightarrow>
             \<lparr>sent_response = http_Error err StatusBadRequest w,
              internalLogSent = p_internalLogSent, logs_calls = [LogContent]\<rparr>
         | Inr data \<Rightarrow>
             (if length data = 0 then
                \<lparr>sent_response = WriteHeader StatusMovedPermanently w,
                 internalLogSent = p_internalLogSent, logs_calls = [LogContent]\<rparr>
              else
                let logFile = EncodeToString data;
                    req = \<lparr>UID = cdUID, LogFile = logFile\<rparr>;
                    resp = \<lparr>Size = int (length data), Error = []\<rparr>;
                    (resp1, w1) =
                      (case SendLogs_err d req of
                         Some err \<Rightarrow>
                           (resp\<lparr>Error := err\<rparr>, WriteHeader StatusInternalServerError w)
                       | None \<Rightarrow> (resp, WriteHeader StatusOK w));
                    w2 =
                      (case Encode_err d of
                         Some err \<Rightarrow> http_Error err StatusInternalServerError w1
                       | None \<Rightarrow> Write (Json resp1) w1)
                in
                \<lparr>sent_response = w2, internalLogSent = now_on_exit d,
                 logs_calls = [LogContent, SendLogs req]\<rparr>)))"

subsection \<open>Example runs\<close>

text \<open>
  Two listeners, a service configuration given as a string and compared by equality,
  and a daemon that signals the end of the reload after 120 milliseconds.
\<close>

definition cfg_two :: "(unit, string) Config" where
  "cfg_two =
     \<lparr>Listener = [(''0'', \<lparr>ListenerIP = ''127.0.0.1'', Port = 53\<rparr>),
                  (''1'', \<lparr>ListenerIP = ''10.0.0.1'', Port = 5354\<rparr>)],
      Service = ''log_level=info''\<rparr>"

definition reloaded_to :: "(unit, string) Config \<Rightarrow> (unit, string) reload_daemon" where
  "reloaded_to c =
     \<lparr>sendReloadSignal = None, reloadDoneCh = At 120, timer_wins = False, cfg_reloaded = c\<rparr>"

text \<open>The second listener removed, everything else as before.\<close>

definition cfg_one_removed :: "(unit, string) Config" where
  "cfg_one_removed =
     \<lparr>Listener = [(''0'', \<lparr>ListenerIP = ''127.0.0.1'', Port = 53\<rparr>)],
      Service = ''log_level=info''\<rparr>"

text \<open>The port of the first listener changed; a third listener added.\<close>

definition cfg_port_changed :: "(unit, string) Config" where
  "cfg_port_changed =
     \<lparr>Listener = [(''0'', \<lparr>ListenerIP = ''127.0.0.1'', Port = 5353\<rparr>),
                  (''1'', \<lparr>ListenerIP = ''10.0.0.1'', Port = 5354\<rparr>)],
      Service = ''log_level=info''\<rparr>"

definition cfg_one_added :: "(unit, string) Config" where
  "cfg_one_added =
     \<lparr>Listener = [(''0'', \<lparr>ListenerIP = ''127.0.0.1'', Port = 53\<rparr>),
                  (''1'', \<lparr>ListenerIP = ''10.0.0.1'', Port = 5354\<rparr>),
                  (''2'', \<lparr>ListenerIP = ''10.0.0.2'', Port = 53\<rparr>)],
      Service = ''log_level=info''\<rparr>"

text \<open>The listeners in another order; the service configuration changed.\<close>

definition cfg_reordered :: "(unit, string) Config" where
  "cfg_reordered =
     \<lparr>Listener = [(''1'', \<lparr>ListenerIP = ''10.0.0.1'', Port = 5354\<rparr>),
                  (''0'', \<lparr>ListenerIP = ''127.0.0.1'', Port = 53\<rparr>)],
      Service = ''log_level=info''\<rparr>"

definition cfg_service_changed :: "(unit, string) Config" where
  "cfg_service_changed =
     \<lparr>Listener = [(''0'', \<lparr>ListenerIP = ''127.0.0.1'', Port = 53\<rparr>),
                  (''1'', \<lparr>ListenerIP = ''10.0.0.1'', Port = 5354\<rparr>)],
      Service = ''log_level=debug''\<rparr>"

text \<open>
  Three clients with their addresses as numbers, and a metrics registry whose lookup
  fails for the client named phone.
\<close>

definition clients_three :: "nat Client list" where
  "clients_three =
     [\<lparr>IP = 30, Mac = ''aa:00:00:00:00:30'', Hostname = ''tv'',
       IncludeQueryCount = False, QueryCount = 0\<rparr>,
      \<lparr>IP = 10, Mac = ''aa:00:00:00:00:10'', Hostname = ''laptop'',
       IncludeQueryCount = False, QueryCount = 0\<rparr>,
      \<lparr>IP = 20, Mac = ''aa:00:00:00:00:20'', Hostname = ''phone'',
       IncludeQueryCount = False, QueryCount = 0\<rparr>]"

definition metrics_example :: "(nat, nat) MetricVec" where
  "metrics_example =
     \<lparr>ip_String = (\<lambda>ip. replicate ip (CHR ''i'')),
      GetMetricWithLabelValues =
        (\<lambda>ip mac host. if host = ''phone'' then Inl ''inconsistent label cardinality''
                        else Inr (length host)),
      metric_Write = (\<lambda>m. Inr (int m))\<rparr>"

text \<open>
  A log-ship request 100 seconds after the clock's origin: the log is read, the
  transmission fails, and the handler leaves at 101 seconds.
\<close>

definition log_daemon_example :: logs_daemon where
  "log_daemon_example =
     \<lparr>now_on_entry = 100000000000, logContent = Inr ''log line'',
      SendLogs_err = (\<lambda>req. Some ''connection refused''), Encode_err = None,
      now_on_exit = 101000000000\<rparr>"

section \<open>Properties\<close>

lemmas status_codes =
  StatusOK_def StatusCreated_def StatusMovedPermanently_def StatusBadRequest_def
  StatusForbidden_def StatusRequestTimeout_def StatusPreconditionFailed_def
  StatusInternalServerError_def StatusServiceUnavailable_def

lemma status_WriteHeader_new [simp]: "status (WriteHeader code new_writer) = code"
  by (simp add: status_def WriteHeader_def new_writer_def)

lemma status_http_Error_new [simp]: "status (http_Error msg code new_writer) = code"
  by (simp add: status_def http_Error_def Write_def WriteHeader_def new_writer_def Let_def)

subsection \<open>Sorting and enrichment of the client list\<close>

lemma mset_insert_by: "mset (insert_by lt x ys) = add_mset x (mset ys)"
  by (induction ys) auto

lemma mset_sort_Slice: "mset (sort_Slice xs lt) = mset xs"
  by (induction xs) (auto simp: sort_Slice_def mset_insert_by)

lemma set_insert_by: "set (insert_by lt x ys) = insert x (set ys)"
  by (induction ys) auto

lemma sorted_insert_by:
  fixes f :: "'a \<Rightarrow> 'k::linorder"
  shows "sorted (map f ys) \<Longrightarrow> sorted (map f (insert_by (\<lambda>a b. f a < f b) x ys))"
  by (induction ys) (auto simp: set_insert_by)

lemma sorted_sort_Slice:
  fixes f :: "'a \<Rightarrow> 'k::linorder"
  shows "sorted (map f (sort_Slice xs (\<lambda>a b. f a < f b)))"
  by (induction xs) (auto simp: sort_Slice_def sorted_insert_by)

lemma map_sort_Slice:
  fixes f :: "'a \<Rightarrow> 'k::linorder"
  shows "map f (sort_Slice xs (\<lambda>a b. f a < f b)) = sort (map f xs)"
proof -
  have "mset (map f (sort_Slice xs (\<lambda>a b. f a < f b))) = mset (map f xs)"
    by (simp add: mset_sort_Slice)
  then show ?thesis
    using sorted_sort_Slice [of f xs] by (metis properties_for_sort)
qed

lemma IP_enrichClient: "IP (enrichClient mv c) = IP c"
  by (simp add: enrichClient_def Let_def split: sum.splits)

lemma IncludeQueryCount_enrichClient: "IncludeQueryCount (enrichClient mv c)"
  by (simp add: enrichClient_def Let_def split: sum.splits)

lemma map_IP_listedClients: "map IP (listedClients table flag mv) = sort (map IP table)"
  by (simp add: listedClients_def Let_def map_sort_Slice IP_enrichClient cong: map_cong)

lemma mset_listedClients:
  "mset (listedClients table flag mv) =
   mset (if flag then map (enrichClient mv) table else table)"
  by (simp add: listedClients_def Let_def mset_sort_Slice)

lemma same_keys_same_list:
  assumes "map f xs = map f ys" "mset xs = mset ys" "distinct (map f xs)"
  shows "xs = ys"
proof -
  have "set xs = set ys" using assms(2) by (metis set_mset_mset)
  moreover have "inj_on f (set xs)" using assms(3) by (simp add: distinct_map)
  ultimately show ?thesis using assms(1) by (metis map_inj_on Un_absorb)
qed

subsection \<open>Deactivation\<close>

text \<open>
  Claim C1. Deactivation: with an empty device identifier the answer is 200 whatever
  the body; otherwise, with the cached PIN (after the re-fetch) equal to the sentinel,
  the answer is 200; otherwise an undecodable body gives 412, a submitted PIN equal to
  the cached PIN gives 200, a submitted PIN equal to the sentinel gives 400, and any
  other submitted PIN gives 403.
\<close>

theorem deactivation_status:
  fixes dflt :: 'pin and w' :: "'j ResponseWriter"
  assumes "deactivationHandler cdUID dflt fetched decoded cached new_writer = (w', pin')"
  shows "(cdUID = [] \<longrightarrow> status w' = 200)
    \<and> (cdUID \<noteq> [] \<longrightarrow> pin' = refetchPin dflt fetched cached)
    \<and> (cdUID \<noteq> [] \<and> pin' = dflt \<longrightarrow> status w' = 200)
    \<and> (cdUID \<noteq> [] \<and> pin' \<noteq> dflt \<longrightarrow>
         (case decoded of
            Inl err \<Rightarrow> status w' = 412
          | Inr req \<Rightarrow>
              (Pin req = pin' \<longrightarrow> status w' = 200)
            \<and> (Pin req \<noteq> pin' \<and> Pin req = dflt \<longrightarrow> status w' = 400)
            \<and> (Pin req \<noteq> pin' \<and> Pin req \<noteq> dflt \<longrightarrow> status w' = 403)))"
  using assms
  by (auto simp: deactivationHandler_def deactivationPinNotSet_def Let_def status_codes
      split: sum.splits if_splits)

theorem deactivation_status_witness:
  "status (fst (deactivationHandler ''uid'' (-1::int) None (Inr \<lparr>Pin = 1234\<rparr>) 1234
                  (new_writer :: unit ResponseWriter))) = 200
 \<and> status (fst (deactivationHandler ''uid'' (-1::int) None (Inr \<lparr>Pin = -1\<rparr>) 1234
                  (new_writer :: unit ResponseWriter))) = 400
 \<and> status (fst (deactivationHandler ''uid'' (-1::int) None (Inr \<lparr>Pin = 9999\<rparr>) 1234
                  (new_writer :: unit ResponseWriter))) = 403
 \<and> status (fst (deactivationHandler ''uid'' (-1::int) None (Inl ''EOF'') 1234
                  (new_writer :: unit ResponseWriter))) = 412
 \<and> status (fst (deactivationHandler ''uid'' (-1::int) (Some \<lparr>DeactivationPin = None\<rparr>)
                  (Inl ''EOF'') 1234 (new_writer :: unit ResponseWriter))) = 200
 \<and> status (fst (deactivationHandler [] (-1::int) None (Inl ''EOF'') 1234
                  (new_writer :: unit ResponseWriter))) = 200"
proof -
  let ?h = "\<lambda>uid fetched decoded.
     deactivationHandler uid (-1::int) fetched decoded 1234 (new_writer :: unit ResponseWriter)"
  have p: "\<And>uid f dec. uid \<noteq> [] \<Longrightarrow> snd (?h uid f dec) = refetchPin (-1) f 1234"
    by (simp add: deactivationHandler_def Let_def split: sum.splits)
  have a: "?h u f dec = (fst (?h u f dec), snd (?h u f dec))" for u f dec by simp
  note t = deactivation_status [OF a]
  show ?thesis
    using t [of "''uid''" None "Inr \<lparr>Pin = 1234\<rparr>"]
      t [of "''uid''" None "Inr \<lparr>Pin = -1\<rparr>"]
      t [of "''uid''" None "Inr \<lparr>Pin = 9999\<rparr>"]
      t [of "''uid''" None "Inl ''EOF''"]
      t [of "''uid''" "Some \<lparr>DeactivationPin = None\<rparr>" "Inl ''EOF''"]
      t [of "[]" None "Inl ''EOF''"]
    by (simp add: p refetchPin_def)
qed

subsection \<open>Reload\<close>

text \<open>
  The loop over the live listeners answers 201 exactly when some live entry has no
  entry of its name in the snapshot or differs from it in address or port. With each
  name once in the configuration, the snapshot holds the address and port of every
  listener of the configuration it was taken from.
\<close>

lemma listenerChanged_iff:
  "listenerChanged listeners kvs \<longleftrightarrow>
   (\<exists>(k, v) \<in> set kvs.
      case listeners k of
        None \<Rightarrow> True
      | Some l \<Rightarrow> ListenerIP l \<noteq> ListenerIP v \<or> Port l \<noteq> Port v)"
  by (induction listeners kvs rule: listenerChanged.induct) (auto split: option.splits)

lemma reloadHandler_completed:
  assumes "sendReloadSignal d = None" "reloadDoneCh d = At t" "t < 5000"
  shows "response (reloadHandler DeepEqual cfg d w) =
     (if listenerChanged (snapshotListeners (Listener cfg)) (Listener (cfg_reloaded d))
      then WriteHeader StatusCreated w
      else if \<not> DeepEqual (Service cfg) (Service (cfg_reloaded d))
      then WriteHeader StatusCreated w
      else WriteHeader StatusOK w)"
  using assms by (simp add: reloadHandler_def Let_def)

lemma snapshotListeners_fold:
  "distinct (map fst kvs) \<Longrightarrow>
   fold (\<lambda>(k, v) listeners. listeners(k \<mapsto> \<lparr>ListenerIP = ListenerIP v, Port = Port v\<rparr>)) kvs m k
   = (case map_of kvs k of
        None \<Rightarrow> m k
      | Some v \<Rightarrow> Some \<lparr>ListenerIP = ListenerIP v, Port = Port v\<rparr>)"
proof (induction kvs arbitrary: m)
  case Nil
  then show ?case by simp
next
  case (Cons kv kvs)
  obtain a b where kv: "kv = (a, b)" by (cases kv)
  have "map_of kvs a = None"
    using Cons.prems by (simp add: kv map_of_eq_None_iff)
  then show ?case
    using Cons.IH [of "m(a \<mapsto> \<lparr>ListenerIP = ListenerIP b, Port = Port b\<rparr>)"] Cons.prems
    by (simp add: kv split: option.splits)
qed

lemma snapshotListeners_lookup:
  "distinct (map fst kvs) \<Longrightarrow>
   snapshotListeners kvs k =
     map_option (\<lambda>v. \<lparr>ListenerIP = ListenerIP v, Port = Port v\<rparr>) (map_of kvs k)"
  by (simp add: snapshotListeners_def snapshotListeners_fold split: option.splits)

lemma snapshot_cfg_two:
  "snapshotListeners (Listener cfg_two) =
     [''0'' \<mapsto> \<lparr>ListenerIP = ''127.0.0.1'', Port = 53\<rparr>,
      ''1'' \<mapsto> \<lparr>ListenerIP = ''10.0.0.1'', Port = 5354\<rparr>]"
  by (simp add: snapshotListeners_def cfg_two_def)

lemma Service_cfg_two: "Service cfg_two = ''log_level=info''"
  by (simp add: cfg_two_def)

text \<open>
  Claim C2, as stated: after a completed reload, a listener of the snapshot that is
  missing from the live map, or a listener of both that differs in address or port,
  gives 201. The loop runs over the live map and looks each name up in the snapshot,
  so a listener that was removed is not seen: with the second listener removed and
  nothing else changed the answer is 200.
\<close>

theorem reload_removed_listener_counterexample:
  "snapshotListeners (Listener cfg_two) ''1'' = Some \<lparr>ListenerIP = ''10.0.0.1'', Port = 5354\<rparr>
 \<and> map_of (Listener (cfg_reloaded (reloaded_to cfg_one_removed))) ''1'' = None
 \<and> sendReloadSignal (reloaded_to cfg_one_removed) = None
 \<and> reloadDoneCh (reloaded_to cfg_one_removed) = At 120
 \<and> status (response (reloadHandler (=) cfg_two (reloaded_to cfg_one_removed)
             (new_writer :: unit ResponseWriter))) = 200"
  by (simp add: snapshot_cfg_two Service_cfg_two reloadHandler_def Let_def reloaded_to_def
      cfg_one_removed_def StatusOK_def StatusCreated_def)

text \<open>
  Claim C2, amended: after a completed reload (the signal sent, the completion received
  before the 5 seconds are over), a listener of the live map that has no entry in the
  snapshot, or that differs from its entry in address or port, gives 201, whatever the
  service configuration.
\<close>

theorem reload_listener_changed:
  assumes "sendReloadSignal d = None" "reloadDoneCh d = At t" "t < 5000"
    and "(k, v) \<in> set (Listener (cfg_reloaded d))"
    and "case snapshotListeners (Listener cfg) k of
           None \<Rightarrow> True
         | Some l \<Rightarrow> ListenerIP l \<noteq> ListenerIP v \<or> Port l \<noteq> Port v"
  shows "status (response (reloadHandler DeepEqual cfg d new_writer)) = 201"
proof -
  have "listenerChanged (snapshotListeners (Listener cfg)) (Listener (cfg_reloaded d))"
    unfolding listenerChanged_iff using assms(4,5) by blast
  then show ?thesis
    by (simp add: reloadHandler_completed [OF assms(1-3)] StatusCreated_def)
qed

theorem reload_listener_changed_witness:
  "status (response (reloadHandler (=) cfg_two (reloaded_to cfg_port_changed)
             (new_writer :: unit ResponseWriter))) = 201
 \<and> status (response (reloadHandler (=) cfg_two (reloaded_to cfg_one_added)
             (new_writer :: unit ResponseWriter))) = 201"
proof -
  have a: "status (response (reloadHandler (=) cfg_two (reloaded_to cfg_port_changed)
             (new_writer :: unit ResponseWriter))) = 201"
    by (rule reload_listener_changed
        [where t = 120 and k = "''0''" and v = "\<lparr>ListenerIP = ''127.0.0.1'', Port = 5353\<rparr>"])
      (simp_all add: snapshot_cfg_two reloaded_to_def cfg_port_changed_def)
  have b: "status (response (reloadHandler (=) cfg_two (reloaded_to cfg_one_added)
             (new_writer :: unit ResponseWriter))) = 201"
    by (rule reload_listener_changed
        [where t = 120 and k = "''2''" and v = "\<lparr>ListenerIP = ''10.0.0.2'', Port = 53\<rparr>"])
      (simp_all add: snapshot_cfg_two reloaded_to_def cfg_one_added_def)
  show ?thesis using a b by simp
qed

text \<open>
  Claim C3. After a completed reload, when every live listener agrees with its entry
  of the snapshot in address and port, no entry of the snapshot is missing from the
  live map, and the service configuration is deeply equal to the one saved before,
  the answer is 200.
\<close>

theorem reload_unchanged:
  assumes "sendReloadSignal d = None" "reloadDoneCh d = At t" "t < 5000"
    and "\<forall>(k, v) \<in> set (Listener (cfg_reloaded d)).
           \<exists>l. snapshotListeners (Listener cfg) k = Some l
             \<and> ListenerIP l = ListenerIP v \<and> Port l = Port v"
    and "dom (snapshotListeners (Listener cfg)) \<subseteq> fst ` set (Listener (cfg_reloaded d))"
    and "DeepEqual (Service cfg) (Service (cfg_reloaded d))"
  shows "status (response (reloadHandler DeepEqual cfg d new_writer)) = 200"
proof -
  have "\<not> listenerChanged (snapshotListeners (Listener cfg)) (Listener (cfg_reloaded d))"
    unfolding listenerChanged_iff using assms(4) by (fastforce split: option.splits)
  then show ?thesis
    using assms(6) by (simp add: reloadHandler_completed [OF assms(1-3)] StatusOK_def)
qed

theorem reload_unchanged_witness:
  "status (response (reloadHandler (=) cfg_two (reloaded_to cfg_reordered)
             (new_writer :: unit ResponseWriter))) = 200"
  by (rule reload_unchanged [where t = 120])
    (auto simp: snapshot_cfg_two Service_cfg_two reloaded_to_def cfg_reordered_def)

text \<open>
  Claim C4. After a completed reload with the live listeners agreeing with the snapshot
  as in C3, a service configuration that is not deeply equal to the one saved before
  gives 201.
\<close>

theorem reload_service_changed:
  assumes "sendReloadSignal d = None" "reloadDoneCh d = At t" "t < 5000"
    and "\<forall>(k, v) \<in> set (Listener (cfg_reloaded d)).
           \<exists>l. snapshotListeners (Listener cfg) k = Some l
             \<and> ListenerIP l = ListenerIP v \<and> Port l = Port v"
    and "dom (snapshotListeners (Listener cfg)) \<subseteq> fst ` set (Listener (cfg_reloaded d))"
    and "\<not> DeepEqual (Service cfg) (Service (cfg_reloaded d))"
  shows "status (response (reloadHandler DeepEqual cfg d new_writer)) = 201"
proof -
  have "\<not> listenerChanged (snapshotListeners (Listener cfg)) (Listener (cfg_reloaded d))"
    unfolding listenerChanged_iff using assms(4) by (fastforce split: option.splits)
  then show ?thesis
    using assms(6) by (simp add: reloadHandler_completed [OF assms(1-3)] StatusCreated_def)
qed

theorem reload_service_changed_witness:
  "status (response (reloadHandler (=) cfg_two (reloaded_to cfg_service_changed)
             (new_writer :: unit ResponseWriter))) = 201"
  by (rule reload_service_changed [where t = 120])
    (auto simp: snapshot_cfg_two Service_cfg_two reloaded_to_def cfg_service_changed_def)

text \<open>
  Claim C5. When \<open>sendReloadSignal\<close> fails, the answer is 500 with the error's text, and
  the handler neither waits nor verifies: the signal is its only call. When the signal
  is sent and the completion does not come within 5 seconds, the answer is 500 with
  the timeout message after a wait of 5 seconds, and nothing is verified. In both cases
  the result does not depend on the configuration the daemon has reached.
\<close>

theorem reload_failures:
  "(sendReloadSignal d = Some err \<longrightarrow>
      reloadHandler DeepEqual cfg d new_writer =
        \<lparr>response = \<lparr>header_sent = Some 500, written = [Text (err @ [CHR 0x0A])]\<rparr>,
         calls = [SendReloadSignal], waited = 0\<rparr>)
 \<and> (sendReloadSignal d = None \<and> (reloadDoneCh d = Never \<or> (\<exists>t. reloadDoneCh d = At t \<and> 5000 < t)) \<longrightarrow>
      reloadHandler DeepEqual cfg d new_writer =
        \<lparr>response = \<lparr>header_sent = Some 500,
                      written = [Text (''timeout waiting for ctrld reload'' @ [CHR 0x0A])]\<rparr>,
         calls = [SendReloadSignal, WaitReloadDone], waited = 5000\<rparr>)"
  by (auto simp: reloadHandler_def Let_def http_Error_def Write_def WriteHeader_def
      new_writer_def StatusInternalServerError_def)

theorem reload_failures_witness:
  "reloadHandler (=) cfg_two ((reloaded_to cfg_one_added)\<lparr>sendReloadSignal := Some ''no such process''\<rparr>)
     (new_writer :: unit ResponseWriter) =
     \<lparr>response = \<lparr>header_sent = Some 500, written = [Text (''no such process'' @ [CHR 0x0A])]\<rparr>,
      calls = [SendReloadSignal], waited = 0\<rparr>
 \<and> reloadHandler (=) cfg_two ((reloaded_to cfg_one_added)\<lparr>reloadDoneCh := At 7000\<rparr>)
     (new_writer :: unit ResponseWriter) =
     \<lparr>response = \<lparr>header_sent = Some 500,
                   written = [Text (''timeout waiting for ctrld reload'' @ [CHR 0x0A])]\<rparr>,
      calls = [SendReloadSignal, WaitReloadDone], waited = 5000\<rparr>"
  using reload_failures [of "(reloaded_to cfg_one_added)\<lparr>sendReloadSignal := Some ''no such process''\<rparr>"
      "''no such process''" "(=)" cfg_two]
    reload_failures [of "(reloaded_to cfg_one_added)\<lparr>reloadDoneCh := At 7000\<rparr>" "[]" "(=)" cfg_two]
  by (simp add: reloaded_to_def)

subsection \<open>Client listing\<close>

lemma listClientsHandler_ok:
  "listClientsHandler table flag mv None new_writer =
     \<lparr>header_sent = Some 200, written = [Json (listedClients table flag mv)]\<rparr>"
  by (simp add: listClientsHandler_def Let_def Write_def WriteHeader_def new_writer_def)

lemma listedClients_perm:
  assumes "mset table' = mset table"
  shows "mset (listedClients table' flag mv) = mset (listedClients table flag mv)"
  using assms by (simp add: mset_listedClients)

lemma listedClients_IP_perm:
  assumes "mset table' = mset table"
  shows "map IP (listedClients table' flag mv) = map IP (listedClients table flag mv)"
proof -
  have "mset (sort (map IP table')) = mset (map IP table)"
    using assms by simp
  then have "sort (map IP table) = sort (map IP table')"
    by (rule properties_for_sort) simp
  then show ?thesis by (simp add: map_IP_listedClients)
qed

lemma listedClients_determined:
  assumes "distinct (map IP table)" "mset table' = mset table"
  shows "listedClients table' flag mv = listedClients table flag mv"
proof (rule same_keys_same_list [where f = IP])
  show "map IP (listedClients table' flag mv) = map IP (listedClients table flag mv)"
    by (rule listedClients_IP_perm [OF assms(2)])
  show "mset (listedClients table' flag mv) = mset (listedClients table flag mv)"
    by (rule listedClients_perm [OF assms(2)])
  have "mset (map IP table') = mset (map IP table)"
    using assms(2) by simp
  then have "distinct (map IP table')"
    using assms(1) mset_eq_imp_distinct_iff by blast
  then show "distinct (map IP (listedClients table' flag mv))"
    by (simp add: map_IP_listedClients)
qed

text \<open>
  Claim C6. Whatever the order in which the client table comes, the listing that is
  encoded holds the clients of the table (enriched when the flag is on) in ascending
  order of address: its addresses are the sorted addresses of the table, two orders of
  the same table give the same addresses, and the same listing when no address occurs
  twice.
\<close>

theorem listClients_sorted:
  fixes table :: "'ip::linorder Client list"
  shows "listClientsHandler table flag mv None new_writer =
           \<lparr>header_sent = Some 200, written = [Json (listedClients table flag mv)]\<rparr>
    \<and> sorted (map IP (listedClients table flag mv))
    \<and> map IP (listedClients table flag mv) = sort (map IP table)
    \<and> mset (listedClients table flag mv) =
        mset (if flag then map (enrichClient mv) table else table)
    \<and> (\<forall>table'. mset table' = mset table \<longrightarrow>
          map IP (listedClients table' flag mv) = map IP (listedClients table flag mv))
    \<and> (distinct (map IP table) \<longrightarrow>
        (\<forall>table'. mset table' = mset table \<longrightarrow>
          listedClients table' flag mv = listedClients table flag mv))"
proof (intro conjI allI impI)
  show "listClientsHandler table flag mv None new_writer =
           \<lparr>header_sent = Some 200, written = [Json (listedClients table flag mv)]\<rparr>"
    by (rule listClientsHandler_ok)
  show "sorted (map IP (listedClients table flag mv))"
    by (simp add: map_IP_listedClients)
  show "map IP (listedClients table flag mv) = sort (map IP table)"
    by (rule map_IP_listedClients)
  show "mset (listedClients table flag mv) =
        mset (if flag then map (enrichClient mv) table else table)"
    by (rule mset_listedClients)
next
  fix table' :: "'ip Client list"
  assume "mset table' = mset table"
  then show "map IP (listedClients table' flag mv) = map IP (listedClients table flag mv)"
    by (rule listedClients_IP_perm)
next
  fix table' :: "'ip Client list"
  assume "distinct (map IP table)" "mset table' = mset table"
  then show "listedClients table' flag mv = listedClients table flag mv"
    by (rule listedClients_determined)
qed

theorem listClients_sorted_witness:
  "map IP (listedClients clients_three True metrics_example) = [10, 20, 30]
 \<and> listedClients (rev clients_three) True metrics_example =
     listedClients clients_three True metrics_example"
proof -
  have d: "distinct (map IP clients_three)" by (simp add: clients_three_def)
  have s: "sort (map IP clients_three) = [10, 20, 30]" by (simp add: clients_three_def)
  have m: "mset (rev clients_three) = mset clients_three" by simp
  show ?thesis
    using listClients_sorted [of clients_three True metrics_example] d s m by metis
qed

lemma enrichClient_lookup_failed:
  "GetMetricWithLabelValues mv (ip_String mv (IP c)) (Mac c) (Hostname c) = Inl err \<Longrightarrow>
   enrichClient mv c = c\<lparr>IncludeQueryCount := True\<rparr>"
  by (simp add: enrichClient_def Let_def)

lemma set_listedClients_True:
  "set (listedClients table True mv) = enrichClient mv ` set table"
proof -
  have "set_mset (mset (listedClients table True mv)) = set_mset (mset (map (enrichClient mv) table))"
    by (simp only: mset_listedClients if_True)
  then show ?thesis by simp
qed

text \<open>
  Claim C10. With the query-count flag on, every client of the listing has
  \<open>IncludeQueryCount\<close> set; a client whose lookup in the metrics registry fails is
  listed with the flag set and with its query count as the table gave it.
\<close>

theorem listClients_query_count_flag:
  fixes table :: "'ip::linorder Client list"
  shows "listClientsHandler table True mv None new_writer =
           \<lparr>header_sent = Some 200, written = [Json (listedClients table True mv)]\<rparr>
    \<and> (\<forall>c \<in> set (listedClients table True mv). IncludeQueryCount c)
    \<and> (\<forall>c \<in> set table. \<forall>err.
          GetMetricWithLabelValues mv (ip_String mv (IP c)) (Mac c) (Hostname c) = Inl err \<longrightarrow>
          enrichClient mv c = c\<lparr>IncludeQueryCount := True\<rparr>
          \<and> c\<lparr>IncludeQueryCount := True\<rparr> \<in> set (listedClients table True mv))"
  by (auto simp: listClientsHandler_ok set_listedClients_True IncludeQueryCount_enrichClient
      enrichClient_lookup_failed intro!: image_eqI)

theorem listClients_query_count_flag_witness:
  "\<lparr>IP = 20, Mac = ''aa:00:00:00:00:20'', Hostname = ''phone'',
    IncludeQueryCount = True, QueryCount = 0\<rparr>
     \<in> set (listedClients clients_three True metrics_example)"
proof -
  let ?c = "\<lparr>IP = 20::nat, Mac = ''aa:00:00:00:00:20'', Hostname = ''phone'',
             IncludeQueryCount = False, QueryCount = 0\<rparr>"
  have c: "?c \<in> set clients_three" by (simp add: clients_three_def)
  have f: "GetMetricWithLabelValues metrics_example (ip_String metrics_example (IP ?c)) (Mac ?c)
             (Hostname ?c) = Inl ''inconsistent label cardinality''"
    by (simp add: metrics_example_def)
  have "?c\<lparr>IncludeQueryCount := True\<rparr> \<in> set (listedClients clients_three True metrics_example)"
    using listClients_query_count_flag [of clients_three metrics_example] c f by blast
  then show ?thesis by simp
qed

subsection \<open>Logs\<close>

lemma time_Since_example [simp]:
  "time_Since 100000000000 0 = 100000000000" "time_Since 102000000000 101000000000 = 1000000000"
  by (simp_all add: time_Since_def time_Sub_def maxDuration_def minDuration_def)

text \<open>
  Claim C7. In the log-view handler and, whenever it reads the log, in the log-ship
  handler, an empty log gives 301 with no body and a failed read gives 400 with the
  error's text; the two answers differ in their status. The log-ship handler reads the
  log exactly when the request is not throttled.
\<close>

theorem logs_empty_and_error:
  "viewLogsHandler (Inr []) enc new_writer = \<lparr>header_sent = Some 301, written = []\<rparr>
 \<and> viewLogsHandler (Inl err) enc new_writer =
      \<lparr>header_sent = Some 400, written = [Text (err @ [CHR 0x0A])]\<rparr>
 \<and> (LogContent \<in> set (logs_calls (sendLogsHandler interval uid b64 d t0 new_writer)) \<longrightarrow>
      (logContent d = Inr [] \<longrightarrow>
         sent_response (sendLogsHandler interval uid b64 d t0 new_writer) =
           \<lparr>header_sent = Some 301, written = []\<rparr>)
    \<and> (logContent d = Inl err \<longrightarrow>
         sent_response (sendLogsHandler interval uid b64 d t0 new_writer) =
           \<lparr>header_sent = Some 400, written = [Text (err @ [CHR 0x0A])]\<rparr>))
 \<and> (LogContent \<in> set (logs_calls (sendLogsHandler interval uid b64 d t0 new_writer)) \<longleftrightarrow>
      \<not> time_Since (now_on_entry d) t0 < interval)"
  by (auto simp: viewLogsHandler_def sendLogsHandler_def Let_def http_Error_def Write_def
      WriteHeader_def new_writer_def status_codes split: sum.splits prod.splits)

theorem logs_empty_and_error_witness:
  "sent_response (sendLogsHandler 60000000000 ''uid'' (\<lambda>s. s)
     (log_daemon_example\<lparr>logContent := Inr []\<rparr>) 0 new_writer) =
     \<lparr>header_sent = Some 301, written = []\<rparr>
 \<and> sent_response (sendLogsHandler 60000000000 ''uid'' (\<lambda>s. s)
     (log_daemon_example\<lparr>logContent := Inl ''no log file''\<rparr>) 0 new_writer) =
     \<lparr>header_sent = Some 400, written = [Text (''no log file'' @ [CHR 0x0A])]\<rparr>"
proof -
  have a: "LogContent \<in> set (logs_calls (sendLogsHandler 60000000000 ''uid'' (\<lambda>s. s)
     (log_daemon_example\<lparr>logContent := x\<rparr>) 0 new_writer))" for x
    by (cases x) (simp_all add: sendLogsHandler_def log_daemon_example_def Let_def
        split: prod.splits)
  show ?thesis
    using logs_empty_and_error [where err = "''no log file''" and interval = 60000000000
        and uid = "''uid''" and ?b64.0 = "\<lambda>s. s" and ?t0.0 = 0
        and d = "log_daemon_example\<lparr>logContent := Inr []\<rparr>"]
      logs_empty_and_error [where err = "''no log file''" and interval = 60000000000
        and uid = "''uid''" and ?b64.0 = "\<lambda>s. s" and ?t0.0 = 0
        and d = "log_daemon_example\<lparr>logContent := Inl ''no log file''\<rparr>"]
      a
    by simp
qed

lemma sendLogsHandler_throttled:
  "time_Since (now_on_entry d) t0 < interval \<Longrightarrow>
   sendLogsHandler interval uid b64 d t0 new_writer =
     \<lparr>sent_response = \<lparr>header_sent = Some 503, written = []\<rparr>,
      internalLogSent = t0, logs_calls = []\<rparr>"
  by (simp add: sendLogsHandler_def WriteHeader_def new_writer_def StatusServiceUnavailable_def)

lemma sendLogsHandler_attempt:
  assumes "\<not> time_Since (now_on_entry d) t0 < interval" "logContent d = Inr data" "data \<noteq> []"
  shows "logs_calls (sendLogsHandler interval uid b64 d t0 w) =
           [LogContent, SendLogs \<lparr>UID = uid, LogFile = b64 data\<rparr>]"
    and "internalLogSent (sendLogsHandler interval uid b64 d t0 w) = now_on_exit d"
    and "status (sent_response (sendLogsHandler interval uid b64 d t0 new_writer)) =
           (case SendLogs_err d \<lparr>UID = uid, LogFile = b64 data\<rparr> of
              Some e \<Rightarrow> 500 | None \<Rightarrow> 200)"
  using assms
  by (auto simp: sendLogsHandler_def Let_def http_Error_def Write_def WriteHeader_def
      new_writer_def status_def status_codes split: option.splits prod.splits)

lemma sendLogsHandler_sent:
  assumes "SendLogs req \<in> set (logs_calls (sendLogsHandler interval uid b64 d t0 w))"
  shows "internalLogSent (sendLogsHandler interval uid b64 d t0 w) = now_on_exit d"
  using assms
  by (auto simp: sendLogsHandler_def Let_def split: sum.splits if_splits prod.splits)

text \<open>
  Claim C8. A log-ship request within the interval since the stored time gets 503, and
  the handler neither reads nor sends the log and leaves the stored time as it is. A
  request that reaches the transmission answers 500 when it fails and 200 when it
  succeeds; either way the stored time becomes the time at which the handler leaves,
  and a request within the interval from that time gets 503.
\<close>

theorem sendLogs_throttle:
  "(time_Since (now_on_entry d) t0 < interval \<longrightarrow>
      sendLogsHandler interval uid b64 d t0 new_writer =
        \<lparr>sent_response = \<lparr>header_sent = Some 503, written = []\<rparr>,
         internalLogSent = t0, logs_calls = []\<rparr>)
 \<and> (\<not> time_Since (now_on_entry d) t0 < interval \<and> logContent d = Inr data \<and> data \<noteq> [] \<longrightarrow>
      logs_calls (sendLogsHandler interval uid b64 d t0 new_writer) =
        [LogContent, SendLogs \<lparr>UID = uid, LogFile = b64 data\<rparr>]
    \<and> status (sent_response (sendLogsHandler interval uid b64 d t0 new_writer)) =
        (case SendLogs_err d \<lparr>UID = uid, LogFile = b64 data\<rparr> of
           Some e \<Rightarrow> 500 | None \<Rightarrow> 200))
 \<and> (\<forall>req. SendLogs req \<in> set (logs_calls (sendLogsHandler interval uid b64 d t0 new_writer)) \<longrightarrow>
      internalLogSent (sendLogsHandler interval uid b64 d t0 new_writer) = now_on_exit d
    \<and> (\<forall>d2 :: logs_daemon. time_Since (now_on_entry d2) (now_on_exit d) < interval \<longrightarrow>
          sendLogsHandler interval uid b64 d2
            (internalLogSent (sendLogsHandler interval uid b64 d t0 new_writer)) new_writer =
          \<lparr>sent_response = \<lparr>header_sent = Some 503, written = []\<rparr>,
           internalLogSent = now_on_exit d, logs_calls = []\<rparr>))"
proof (intro conjI impI allI)
  show "sendLogsHandler interval uid b64 d t0 new_writer =
        \<lparr>sent_response = \<lparr>header_sent = Some 503, written = []\<rparr>,
         internalLogSent = t0, logs_calls = []\<rparr>"
    if "time_Since (now_on_entry d) t0 < interval"
    using that by (rule sendLogsHandler_throttled)
next
  assume a: "\<not> time_Since (now_on_entry d) t0 < interval \<and> logContent d = Inr data \<and> data \<noteq> []"
  show "logs_calls (sendLogsHandler interval uid b64 d t0 new_writer) =
        [LogContent, SendLogs \<lparr>UID = uid, LogFile = b64 data\<rparr>]"
    using a by (simp add: sendLogsHandler_attempt(1))
  show "status (sent_response (sendLogsHandler interval uid b64 d t0 new_writer)) =
        (case SendLogs_err d \<lparr>UID = uid, LogFile = b64 data\<rparr> of
           Some e \<Rightarrow> 500 | None \<Rightarrow> 200)"
    using a by (simp add: sendLogsHandler_attempt(3))
next
  fix req
  assume s: "SendLogs req \<in> set (logs_calls (sendLogsHandler interval uid b64 d t0 new_writer))"
  show e: "internalLogSent (sendLogsHandler interval uid b64 d t0 new_writer) = now_on_exit d"
    using s by (rule sendLogsHandler_sent)
  fix d2 :: logs_daemon
  assume "time_Since (now_on_entry d2) (now_on_exit d) < interval"
  then show "sendLogsHandler interval uid b64 d2
            (internalLogSent (sendLogsHandler interval uid b64 d t0 new_writer)) new_writer =
          \<lparr>sent_response = \<lparr>header_sent = Some 503, written = []\<rparr>,
           internalLogSent = now_on_exit d, logs_calls = []\<rparr>"
    unfolding e by (rule sendLogsHandler_throttled)
qed

theorem sendLogs_throttle_witness:
  "status (sent_response (sendLogsHandler 60000000000 ''uid'' (\<lambda>s. s) log_daemon_example 0
     new_writer)) = 500
 \<and> sendLogsHandler 60000000000 ''uid'' (\<lambda>s. s) (log_daemon_example\<lparr>now_on_entry := 102000000000\<rparr>)
     (internalLogSent (sendLogsHandler 60000000000 ''uid'' (\<lambda>s. s) log_daemon_example 0 new_writer))
     new_writer =
     \<lparr>sent_response = \<lparr>header_sent = Some 503, written = []\<rparr>,
      internalLogSent = 101000000000, logs_calls = []\<rparr>"
proof -
  have n: "\<not> time_Since (now_on_entry log_daemon_example) 0 < 60000000000"
    "logContent log_daemon_example = Inr ''log line''"
    "now_on_exit log_daemon_example = 101000000000"
    "SendLogs_err log_daemon_example \<lparr>UID = ''uid'', LogFile = ''log line''\<rparr> = Some ''connection refused''"
    by (simp_all add: log_daemon_example_def)
  have t: "time_Since (now_on_entry (log_daemon_example\<lparr>now_on_entry := 102000000000\<rparr>))
             (now_on_exit log_daemon_example) < 60000000000"
    by (simp add: log_daemon_example_def)
  note th = sendLogs_throttle [of log_daemon_example 0 60000000000 "''uid''" "\<lambda>s. s" "''log line''"]
  have c: "logs_calls (sendLogsHandler 60000000000 ''uid'' (\<lambda>s. s) log_daemon_example 0 new_writer) =
        [LogContent, SendLogs \<lparr>UID = ''uid'', LogFile = ''log line''\<rparr>]"
    and s: "status (sent_response (sendLogsHandler 60000000000 ''uid'' (\<lambda>s. s) log_daemon_example 0
     new_writer)) = 500"
    using th n by simp_all
  have "SendLogs \<lparr>UID = ''uid'', LogFile = ''log line''\<rparr> \<in>
     set (logs_calls (sendLogsHandler 60000000000 ''uid'' (\<lambda>s. s) log_daemon_example 0 new_writer))"
    by (simp add: c)
  with th have k:
    "internalLogSent (sendLogsHandler 60000000000 ''uid'' (\<lambda>s. s) log_daemon_example 0 new_writer)
       = now_on_exit log_daemon_example
     \<and> (\<forall>d2 :: logs_daemon.
          time_Since (now_on_entry d2) (now_on_exit log_daemon_example) < 60000000000 \<longrightarrow>
          sendLogsHandler 60000000000 ''uid'' (\<lambda>s. s) d2
            (internalLogSent (sendLogsHandler 60000000000 ''uid'' (\<lambda>s. s) log_daemon_example 0
               new_writer)) new_writer =
          \<lparr>sent_response = \<lparr>header_sent = Some 503, written = []\<rparr>,
           internalLogSent = now_on_exit log_daemon_example, logs_calls = []\<rparr>)"
    by blast
  then have "sendLogsHandler 60000000000 ''uid'' (\<lambda>s. s)
      (log_daemon_example\<lparr>now_on_entry := 102000000000\<rparr>)
      (internalLogSent (sendLogsHandler 60000000000 ''uid'' (\<lambda>s. s) log_daemon_example 0
         new_writer)) new_writer =
      \<lparr>sent_response = \<lparr>header_sent = Some 503, written = []\<rparr>,
       internalLogSent = now_on_exit log_daemon_example, logs_calls = []\<rparr>"
    using t by blast
  then show ?thesis using s by (simp add: n(3))
qed

subsection \<open>Waits\<close>

lemma select_After_bound: "snd (select_After s d tw) \<le> d"
  by (cases s) auto

text \<open>
  Claim C9, as stated: every handler's wait on a signal ends within a fixed bound, the
  interface handler's among them. The interface handler receives from \<open>csSetDnsDone\<close>
  with no timer: run as a service with a signal that never comes, it never returns.
\<close>

theorem iface_never_returns_counterexample:
  "ifaceHandler False Never True ''eth0'' (new_writer :: unit ResponseWriter) = None"
  by (simp add: ifaceHandler_def)

text \<open>
  Claim C9, amended: the readiness handler waits 10 seconds at most and the reload
  handler 5 seconds at most, whatever the signals do. The interface handler does not
  wait in an interactive session; run as a service it returns when the signal of the
  DNS binding comes, and not at all when the signal never comes.
\<close>

theorem waits_of_handlers:
  "snd (startedHandler onStartedDone tw w) \<le> 10000
 \<and> waited (reloadHandler DeepEqual cfg d w) \<le> 5000
 \<and> ifaceHandler True csSetDnsDone ok iface w = Some (WriteHeader StatusBadRequest w, 0)
 \<and> ifaceHandler False (At t) ok iface w =
     Some (if ok then Write (Text iface) w else WriteHeader StatusBadRequest w, t)
 \<and> ifaceHandler False Never ok iface w = None"
proof -
  have "snd (startedHandler onStartedDone tw w) \<le> 10000"
    using select_After_bound [of onStartedDone 10000 tw]
    by (auto simp: startedHandler_def split: prod.splits bool.splits)
  moreover have "waited (reloadHandler DeepEqual cfg d w) \<le> 5000"
    using select_After_bound [of "reloadDoneCh d" 5000 "timer_wins d"]
    by (auto simp: reloadHandler_def Let_def split: option.splits prod.splits bool.splits)
  ultimately show ?thesis by (simp add: ifaceHandler_def)
qed

theorem waits_of_handlers_witness:
  "snd (startedHandler Never False (new_writer :: unit ResponseWriter)) \<le> 10000
 \<and> waited (reloadHandler (=) cfg_two ((reloaded_to cfg_two)\<lparr>reloadDoneCh := Never\<rparr>)
      (new_writer :: unit ResponseWriter)) \<le> 5000
 \<and> ifaceHandler False (At 250) True ''eth0'' (new_writer :: unit ResponseWriter) =
     Some (\<lparr>header_sent = Some 200, written = [Text ''eth0'']\<rparr>, 250)"
  using waits_of_handlers [of Never False "new_writer :: unit ResponseWriter" "(=)" cfg_two
      "(reloaded_to cfg_two)\<lparr>reloadDoneCh := Never\<rparr>" Never True "''eth0''" 250]
  by (simp add: Write_def WriteHeader_def new_writer_def)

end
